theory Spec2Isabelle
  imports Complex_Main
begin

section \<open>The address book service of \<^verbatim>\<open>main.py\<close>\<close>

text \<open>
  The service is five FastAPI handlers over one SQLite table, reached through an
  SQLAlchemy session. The handlers are modelled statement by statement; the library calls
  they make (\<^verbatim>\<open>SessionLocal()\<close>, \<^verbatim>\<open>add\<close>, \<^verbatim>\<open>query\<close>, \<^verbatim>\<open>commit\<close>, \<^verbatim>\<open>refresh\<close>,
  \<^verbatim>\<open>delete\<close>, \<^verbatim>\<open>close\<close>) are modelled by what the session factory of line 21
  (\<^verbatim>\<open>autocommit=False, autoflush=False\<close>) and the SQLite engine of line 14 do:
  changes made to objects stay pending in the session until \<^verbatim>\<open>commit\<close> writes them to
  the table, and a session that is closed or dropped discards what is still pending.

  Python floats are only stored and returned, never computed with; they are modelled as
  \<^typ>\<open>real\<close>, so the values that are not numbers (NaN, the infinities) are left out.
  Python integers are unbounded and modelled as \<^typ>\<open>int\<close>; the 64-bit range of an
  SQLite integer is not modelled. What a handler returns is the result of the model; its
  serialisation through \<^verbatim>\<open>response_model\<close> is not modelled.
\<close>

subsection \<open>Data model\<close>

text \<open>\<^verbatim>\<open>class AddressCreate(BaseModel)\<close>, lines 56-63: the validated request body.\<close>

record AddressCreate =
  latitude :: real
  longitude :: real
  name :: string
  address :: string
  city :: string
  state :: string
  zip_code :: string

text \<open>
  \<^verbatim>\<open>class Address(Base)\<close>, lines 32-44, a row of table \<^verbatim>\<open>addresses\<close>, which is also the
  shape of \<^verbatim>\<open>AddressResponse\<close> (lines 70-71): the seven fields and the primary key
  \<^verbatim>\<open>id\<close> (the column is called \<open>id_col\<close> here, \<open>id\<close> being the identity function of HOL).
\<close>

record Address = AddressCreate +
  id_col :: int

text \<open>\<^verbatim>\<open>Address(**address.dict())\<close> once the insert has given it the key \<open>k\<close>.\<close>

definition Address_of :: "int \<Rightarrow> AddressCreate \<Rightarrow> Address" where
  "Address_of k a =
     \<lparr>latitude = latitude a, longitude = longitude a, name = name a, address = address a,
      city = city a, state = state a, zip_code = zip_code a, id_col = k\<rparr>"

text \<open>The seven non-identifier fields of a row.\<close>

definition fields_of :: "Address \<Rightarrow> AddressCreate" where
  "fields_of r =
     \<lparr>latitude = latitude r, longitude = longitude r, name = name r, address = address r,
      city = city r, state = state r, zip_code = zip_code r\<rparr>"

text \<open>
  The outcomes other than a normal return: \<^verbatim>\<open>HTTPException(status_code=404)\<close>, the
  request validation error raised by the framework for a body that does not fit
  \<^verbatim>\<open>AddressCreate\<close>, and an exception escaping from the ORM.
\<close>

datatype error = NotFound | ValidationError | StoreError

text \<open>
  The database: the committed rows of table \<^verbatim>\<open>addresses\<close> in rowid order (the order a
  \<^verbatim>\<open>SELECT\<close> without \<^verbatim>\<open>ORDER BY\<close> scans them in), and two counters of the sessions created
  by \<^verbatim>\<open>SessionLocal()\<close> and of the sessions closed by \<^verbatim>\<open>db.close()\<close>.
\<close>

record db =
  addresses :: "Address list"
  sessions_opened :: nat
  sessions_closed :: nat

text \<open>\<^verbatim>\<open>Base.metadata.create_all(bind=engine)\<close> on a fresh file: an empty table.\<close>

definition empty_db :: db where
  "empty_db = \<lparr>addresses = [], sessions_opened = 0, sessions_closed = 0\<rparr>"

text \<open>
  A session: the objects added and not yet inserted, the loaded objects whose attributes
  were assigned and not yet written, and the keys of the objects marked for deletion.
\<close>

record Session =
  pending_new :: "AddressCreate list"
  pending_dirty :: "Address list"
  pending_deleted :: "int list"

subsection \<open>The session operations\<close>

definition SessionLocal :: "db \<Rightarrow> Session \<times> db" where
  "SessionLocal d =
     (\<lparr>pending_new = [], pending_dirty = [], pending_deleted = []\<rparr>,
      d\<lparr>sessions_opened := sessions_opened d + 1\<rparr>)"

definition add :: "Session \<Rightarrow> AddressCreate \<Rightarrow> Session" where
  "add s a = s\<lparr>pending_new := pending_new s @ [a]\<rparr>"

text \<open>
  \<^verbatim>\<open>for key, value in address.dict().items(): setattr(db_address, key, value)\<close>: the
  seven keys of \<^verbatim>\<open>AddressCreate\<close> are assigned on the loaded object, which keeps its key
  and becomes dirty in the session.
\<close>

definition setattr_items :: "Address \<Rightarrow> AddressCreate \<Rightarrow> Address" where
  "setattr_items r a =
     r\<lparr>latitude := latitude a, longitude := longitude a, name := name a,
       address := address a, city := city a, state := state a, zip_code := zip_code a\<rparr>"

definition mark_dirty :: "Session \<Rightarrow> Address \<Rightarrow> Session" where
  "mark_dirty s r = s\<lparr>pending_dirty := pending_dirty s @ [r]\<rparr>"

text \<open>\<^verbatim>\<open>db.delete(db_address)\<close>: the object is marked; nothing is written before a flush.\<close>

definition delete :: "Session \<Rightarrow> Address \<Rightarrow> Session" where
  "delete s r = s\<lparr>pending_deleted := pending_deleted s @ [id_col r]\<rparr>"

text \<open>
  The key SQLite gives a row inserted without one into a table whose key is
  \<^verbatim>\<open>INTEGER PRIMARY KEY\<close> (line 37): 1 in an empty table, otherwise one more than the
  largest key in the table.
\<close>

definition next_rowid :: "Address list \<Rightarrow> int" where
  "next_rowid rows = (case map id_col rows of [] \<Rightarrow> 1 | k # ks \<Rightarrow> fold max ks k + 1)"

text \<open>The flush of a commit: the inserts, then the updates, then the deletes.\<close>

fun insert_rows :: "AddressCreate list \<Rightarrow> Address list \<Rightarrow> int list \<times> Address list" where
  "insert_rows [] rows = ([], rows)"
| "insert_rows (a # as) rows =
     (let k = next_rowid rows;
          (ks, rows') = insert_rows as (rows @ [Address_of k a])
      in (k # ks, rows'))"

definition update_row :: "Address \<Rightarrow> Address list \<Rightarrow> Address list" where
  "update_row obj rows = map (\<lambda>r. if id_col r = id_col obj then obj else r) rows"

definition delete_row :: "int \<Rightarrow> Address list \<Rightarrow> Address list" where
  "delete_row k rows = filter (\<lambda>r. id_col r \<noteq> k) rows"

text \<open>
  \<^verbatim>\<open>db.commit()\<close>: everything pending is written to the table and the session is left
  with nothing pending. The keys given to the inserted objects are returned.
\<close>

definition commit :: "Session \<Rightarrow> db \<Rightarrow> int list \<times> Session \<times> db" where
  "commit s d =
     (let (ks, rows1) = insert_rows (pending_new s) (addresses d);
          rows2 = fold update_row (pending_dirty s) rows1;
          rows3 = fold delete_row (pending_deleted s) rows2
      in (ks, \<lparr>pending_new = [], pending_dirty = [], pending_deleted = []\<rparr>,
          d\<lparr>addresses := rows3\<rparr>))"

text \<open>
  \<^verbatim>\<open>db.query(Address).filter(Address.id == address_id).first()\<close>, and the select by
  primary key that \<^verbatim>\<open>db.refresh\<close> issues: the first committed row with that key.
\<close>

definition query_first :: "int \<Rightarrow> db \<Rightarrow> Address option" where
  "query_first k d = find (\<lambda>r. id_col r = k) (addresses d)"

definition refresh :: "int \<Rightarrow> db \<Rightarrow> Address option" where
  "refresh k d = find (\<lambda>r. id_col r = k) (addresses d)"

text \<open>
  \<^verbatim>\<open>db.query(Address).offset(skip).limit(limit).all()\<close>, which SQLite receives as
  \<^verbatim>\<open>LIMIT ? OFFSET ?\<close>: a negative offset counts as zero, and a negative limit is no
  upper bound.
\<close>

definition query_offset_limit :: "int \<Rightarrow> int \<Rightarrow> db \<Rightarrow> Address list" where
  "query_offset_limit skip limit d =
     (let rest = drop (nat skip) (addresses d)
      in if limit < 0 then rest else take (nat limit) rest)"

text \<open>\<^verbatim>\<open>db.close()\<close>: the connection is released, what is pending is discarded.\<close>

definition close :: "Session \<Rightarrow> db \<Rightarrow> db" where
  "close s d = d\<lparr>sessions_closed := sessions_closed d + 1\<rparr>"

subsection \<open>The handlers\<close>

text \<open>\<^verbatim>\<open>create_address\<close>, lines 80-98.\<close>

definition create_address :: "AddressCreate \<Rightarrow> db \<Rightarrow> db \<times> (error + Address)" where
  "create_address a d =
     (let (s, d1) = SessionLocal d;
          s1 = add s a;
          (ks, s2, d2) = commit s1 d1
      in case ks of
           [k] \<Rightarrow>
             (case refresh k d2 of
                Some db_address \<Rightarrow> (close s2 d2, Inr db_address)
              | None \<Rightarrow> (d2, Inl StoreError))
         | _ \<Rightarrow> (d2, Inl StoreError))"

text \<open>\<^verbatim>\<open>read_addresses\<close>, lines 108-119.\<close>

definition read_addresses :: "int \<Rightarrow> int \<Rightarrow> db \<Rightarrow> db \<times> Address list" where
  "read_addresses skip limit d =
     (let (s, d1) = SessionLocal d;
          rows = query_offset_limit skip limit d1
      in (close s d1, rows))"

text \<open>
  The query parameters of the route, \<^verbatim>\<open>skip: int = 0, limit: int = 10\<close>: an absent
  parameter takes its default.
\<close>

definition list_addresses :: "int option \<Rightarrow> int option \<Rightarrow> db \<Rightarrow> db \<times> Address list" where
  "list_addresses skip limit d =
     read_addresses (case skip of None \<Rightarrow> 0 | Some n \<Rightarrow> n)
       (case limit of None \<Rightarrow> 10 | Some n \<Rightarrow> n) d"

text \<open>\<^verbatim>\<open>read_address\<close>, lines 129-144.\<close>

definition read_address :: "int \<Rightarrow> db \<Rightarrow> db \<times> (error + Address)" where
  "read_address address_id d =
     (let (s, d1) = SessionLocal d;
          found = query_first address_id d1;
          d2 = close s d1
      in case found of
           None \<Rightarrow> (d2, Inl NotFound)
         | Some r \<Rightarrow> (d2, Inr r))"

text \<open>\<^verbatim>\<open>update_address\<close>, lines 154-180.\<close>

definition update_address :: "int \<Rightarrow> AddressCreate \<Rightarrow> db \<Rightarrow> db \<times> (error + Address)" where
  "update_address address_id a d =
     (let (s, d1) = SessionLocal d
      in case query_first address_id d1 of
           None \<Rightarrow> (close s d1, Inl NotFound)
         | Some db_address \<Rightarrow>
             (let obj = setattr_items db_address a;
                  s1 = mark_dirty s obj;
                  (ks, s2, d2) = commit s1 d1
              in case refresh (id_col obj) d2 of
                   Some r \<Rightarrow> (close s2 d2, Inr r)
                 | None \<Rightarrow> (d2, Inl StoreError)))"

text \<open>
  \<^verbatim>\<open>delete_address\<close>, lines 188-201. The function ends with \<^verbatim>\<open>db.delete(db_address)\<close>:
  it then returns \<^verbatim>\<open>None\<close>, and the session, with the deletion pending, is neither
  committed nor closed.
\<close>

definition delete_address :: "int \<Rightarrow> db \<Rightarrow> db \<times> (error + unit)" where
  "delete_address address_id d =
     (let (s, d1) = SessionLocal d
      in case query_first address_id d1 of
           None \<Rightarrow> (close s d1, Inl NotFound)
         | Some db_address \<Rightarrow>
             (let s1 = delete s db_address
              in (d1, Inr ())))"

subsection \<open>Request validation\<close>

text \<open>
  The framework validates the JSON body against \<^verbatim>\<open>AddressCreate\<close> before it calls
  \<^verbatim>\<open>create_address\<close>: each of the seven fields is required, the two coordinates must be
  accepted as \<^verbatim>\<open>float\<close> and the five others as \<^verbatim>\<open>str\<close>. Which JSON values the
  validation library accepts for \<^verbatim>\<open>float\<close> and for \<^verbatim>\<open>str\<close> is not part of
  \<^verbatim>\<open>main.py\<close>; the two conversions are parameters, \<open>None\<close> meaning a value of the
  wrong type. The body is the parsed JSON object, a dictionary from keys to values.
\<close>

definition required :: "('j \<Rightarrow> 'a option) \<Rightarrow> (string \<rightharpoonup> 'j) \<Rightarrow> string \<Rightarrow> 'a option" where
  "required conv body key = (case body key of None \<Rightarrow> None | Some v \<Rightarrow> conv v)"

definition validate_AddressCreate ::
  "('j \<Rightarrow> real option) \<Rightarrow> ('j \<Rightarrow> string option) \<Rightarrow> (string \<rightharpoonup> 'j) \<Rightarrow> error + AddressCreate" where
  "validate_AddressCreate as_float as_str body =
     (case required as_float body ''latitude'' of
        None \<Rightarrow> Inl ValidationError
      | Some la \<Rightarrow>
     (case required as_float body ''longitude'' of
        None \<Rightarrow> Inl ValidationError
      | Some lo \<Rightarrow>
     (case required as_str body ''name'' of
        None \<Rightarrow> Inl ValidationError
      | Some n \<Rightarrow>
     (case required as_str body ''address'' of
        None \<Rightarrow> Inl ValidationError
      | Some ad \<Rightarrow>
     (case required as_str body ''city'' of
        None \<Rightarrow> Inl ValidationError
      | Some c \<Rightarrow>
     (case required as_str body ''state'' of
        None \<Rightarrow> Inl ValidationError
      | Some s \<Rightarrow>
     (case required as_str body ''zip_code'' of
        None \<Rightarrow> Inl ValidationError
      | Some z \<Rightarrow>
          Inr \<lparr>latitude = la, longitude = lo, name = n, address = ad, city = c,
               state = s, zip_code = z\<rparr>)))))))"

text \<open>
  The route \<^verbatim>\<open>POST /addresses/\<close> of line 79: the handler runs only on a body that
  validates.
\<close>

definition post_addresses ::
  "('j \<Rightarrow> real option) \<Rightarrow> ('j \<Rightarrow> string option) \<Rightarrow> (string \<rightharpoonup> 'j) \<Rightarrow> db
     \<Rightarrow> db \<times> (error + Address)" where
  "post_addresses as_float as_str body d =
     (case validate_AddressCreate as_float as_str body of
        Inl e \<Rightarrow> (d, Inl e)
      | Inr a \<Rightarrow> create_address a d)"

text \<open>The keys of the body that must convert to a float, and those that must convert to a string.\<close>

definition float_keys :: "string list" where
  "float_keys = [''latitude'', ''longitude'']"

definition str_keys :: "string list" where
  "str_keys = [''name'', ''address'', ''city'', ''state'', ''zip_code'']"

text \<open>JSON values, and conversions that accept a number only, or a string only, for the examples.\<close>

datatype json = JNull | JBool bool | JNumber real | JString string

fun number_only :: "json \<Rightarrow> real option" where
  "number_only (JNumber x) = Some x"
| "number_only _ = None"

fun string_only :: "json \<Rightarrow> string option" where
  "string_only (JString x) = Some x"
| "string_only _ = None"

subsection \<open>Sequences of requests\<close>

text \<open>The records of a list created one after the other.\<close>

definition create_many :: "AddressCreate list \<Rightarrow> db \<Rightarrow> db" where
  "create_many as d = fold (\<lambda>a d'. fst (create_address a d')) as d"








text \<open>The example of the service's description, and a second record.\<close>

definition hq :: AddressCreate where
  "hq = \<lparr>latitude = 407 / 10, longitude = - 74, name = ''HQ'', address = ''1 Main St'',
         city = ''NYC'', state = ''NY'', zip_code = ''10001''\<rparr>"

definition depot :: AddressCreate where
  "depot = \<lparr>latitude = 52, longitude = 13, name = ''Depot'', address = ''2 Side St'',
            city = ''Berlin'', state = ''BE'', zip_code = ''10115''\<rparr>"

text \<open>The database after the first record has been created in an empty table.\<close>

definition hq_db :: db where
  "hq_db = fst (create_address hq empty_db)"

text \<open>Fifteen records to create, and a request body that lacks its zip code.\<close>

definition fifteen :: "AddressCreate list" where
  "fifteen = [hq, depot, hq, depot, hq, depot, hq, depot, hq, depot, hq, depot, hq, depot, hq]"

definition no_zip_body :: "string \<rightharpoonup> json" where
  "no_zip_body =
     [''latitude'' \<mapsto> JNumber (407 / 10), ''longitude'' \<mapsto> JNumber (- 74),
      ''name'' \<mapsto> JString ''HQ'', ''address'' \<mapsto> JString ''1 Main St'',
      ''city'' \<mapsto> JString ''NYC'', ''state'' \<mapsto> JString ''NY'']"

section \<open>Properties\<close>

subsection \<open>What each handler computes\<close>

text \<open>The key given to an inserted row is larger than every key already in the table.\<close>


lemma fold_max_upper: "x \<in> set (k # ks) \<Longrightarrow> x \<le> fold max ks (k::int)"
  by (simp only: Max.set_eq_fold [symmetric]) (rule Max_ge, simp_all)

lemma next_rowid_gt: "r \<in> set rows \<Longrightarrow> id_col r < next_rowid rows"
proof (cases rows)
  case Nil
  assume "r \<in> set rows"
  with Nil show ?thesis by simp
next
  case (Cons q qs)
  assume "r \<in> set rows"
  then have "id_col r \<in> set (id_col q # map id_col qs)"
    using Cons by auto
  then have "id_col r \<le> fold max (map id_col qs) (id_col q)"
    by (rule fold_max_upper)
  then show ?thesis
    using Cons by (simp add: next_rowid_def)
qed

lemma find_fresh_append:
  "\<forall>r \<in> set rows. \<not> P r \<Longrightarrow> P x \<Longrightarrow> find P (rows @ [x]) = Some x"
  by (induction rows) simp_all

lemma id_col_Address_of [simp]: "id_col (Address_of k a) = k"
  by (simp add: Address_of_def)

lemma fields_of_Address_of [simp]: "fields_of (Address_of k a) = a"
  by (simp add: Address_of_def fields_of_def)

lemma refresh_inserted:
  "refresh (next_rowid rows) (d\<lparr>addresses := rows @ [Address_of (next_rowid rows) a]\<rparr>)
     = Some (Address_of (next_rowid rows) a)"
proof -
  have "\<forall>r \<in> set rows. \<not> id_col r = next_rowid rows"
    using next_rowid_gt [of _ rows] by fastforce
  then show ?thesis
    by (simp add: refresh_def find_fresh_append)
qed

lemma create_address_eq:
  "create_address a d =
     (d\<lparr>addresses := addresses d @ [Address_of (next_rowid (addresses d)) a],
        sessions_opened := sessions_opened d + 1, sessions_closed := sessions_closed d + 1\<rparr>,
      Inr (Address_of (next_rowid (addresses d)) a))"
  using refresh_inserted [where rows = "addresses d" and d = "d\<lparr>sessions_opened := Suc (sessions_opened d)\<rparr>" and a = a]
  by (simp add: create_address_def SessionLocal_def add_def commit_def Let_def close_def)

lemma read_address_eq:
  "read_address k d =
     (d\<lparr>sessions_opened := sessions_opened d + 1, sessions_closed := sessions_closed d + 1\<rparr>,
      case find (\<lambda>r. id_col r = k) (addresses d) of
        None \<Rightarrow> Inl NotFound | Some r \<Rightarrow> Inr r)"
  by (simp add: read_address_def SessionLocal_def query_first_def close_def Let_def
      split: option.splits)


lemma find_replaced:
  "find P rows = Some r0 \<Longrightarrow> P obj \<Longrightarrow>
     find P (map (\<lambda>r. if P r then obj else r) rows) = Some obj"
  by (induction rows) (auto split: if_splits)

lemma setattr_items_eq: "setattr_items r a = Address_of (id_col r) a"
  by (simp add: setattr_items_def Address_of_def)

lemma find_id_col: "find (\<lambda>r. id_col r = k) rows = Some r \<Longrightarrow> id_col r = k \<and> r \<in> set rows"
  by (induction rows) (auto split: if_splits)

lemma find_None_absent: "(find (\<lambda>r. id_col r = k) rows = None) = (k \<notin> id_col ` set rows)"
  by (induction rows) auto

lemma update_address_found:
  assumes "find (\<lambda>r. id_col r = k) (addresses d) = Some r0"
  shows "update_address k a d =
     (d\<lparr>addresses := map (\<lambda>r. if id_col r = k then Address_of k a else r) (addresses d),
        sessions_opened := sessions_opened d + 1, sessions_closed := sessions_closed d + 1\<rparr>,
      Inr (Address_of k a))"
proof -
  have k: "id_col r0 = k"
    using find_id_col [OF assms] by simp
  have q: "\<And>n. query_first k (d\<lparr>sessions_opened := n\<rparr>) = Some r0"
    using assms by (simp add: query_first_def)
  have obj: "setattr_items r0 a = Address_of k a"
    by (simp add: setattr_items_eq k)
  have c: "\<And>d1. commit (mark_dirty \<lparr>pending_new = [], pending_dirty = [], pending_deleted = []\<rparr>
                 (Address_of k a)) d1
           = ([], \<lparr>pending_new = [], pending_dirty = [], pending_deleted = []\<rparr>,
              d1\<lparr>addresses := map (\<lambda>r. if id_col r = k then Address_of k a else r) (addresses d1)\<rparr>)"
    by (simp add: commit_def mark_dirty_def update_row_def)
  have f: "find (\<lambda>r. id_col r = k)
          (map (\<lambda>r. if id_col r = k then Address_of k a else r) (addresses d))
        = Some (Address_of k a)"
    using assms by (rule find_replaced) simp
  show ?thesis
    unfolding update_address_def SessionLocal_def
    by (simp add: q obj c f refresh_def close_def Let_def)
qed

lemma update_address_absent:
  assumes "find (\<lambda>r. id_col r = k) (addresses d) = None"
  shows "update_address k a d =
     (d\<lparr>sessions_opened := sessions_opened d + 1, sessions_closed := sessions_closed d + 1\<rparr>,
      Inl NotFound)"
  using assms
  by (simp add: update_address_def SessionLocal_def query_first_def close_def)

lemma delete_address_eq:
  "delete_address k d =
     (case find (\<lambda>r. id_col r = k) (addresses d) of
        None \<Rightarrow> (d\<lparr>sessions_opened := sessions_opened d + 1,
                    sessions_closed := sessions_closed d + 1\<rparr>, Inl NotFound)
      | Some r \<Rightarrow> (d\<lparr>sessions_opened := sessions_opened d + 1\<rparr>, Inr ()))"
  by (simp add: delete_address_def SessionLocal_def query_first_def close_def Let_def
      split: option.splits)

lemma read_addresses_eq:
  "read_addresses skip limit d =
     (d\<lparr>sessions_opened := sessions_opened d + 1, sessions_closed := sessions_closed d + 1\<rparr>,
      if limit < 0 then drop (nat skip) (addresses d)
      else take (nat limit) (drop (nat skip) (addresses d)))"
  by (simp add: read_addresses_def SessionLocal_def query_offset_limit_def close_def Let_def)



lemma hq_db_eq:
  "hq_db = \<lparr>addresses = [Address_of 1 hq], sessions_opened = 1, sessions_closed = 1\<rparr>"
  by (simp add: hq_db_def create_address_eq empty_db_def next_rowid_def)

subsection \<open>Create, then get\<close>

text \<open>
  C1. For every input, \<open>create_address\<close> succeeds with a record whose seven fields are the
  input and whose identifier is the key the table assigned, and \<open>read_address\<close> on that
  identifier, run on the database \<open>create_address\<close> left, succeeds and returns that
  same record.
\<close>

theorem create_then_get:
  "\<exists>d' row. create_address a d = (d', Inr row) \<and> fields_of row = a
     \<and> id_col row = next_rowid (addresses d)
     \<and> snd (read_address (id_col row) d') = Inr row"
proof -
  let ?k = "next_rowid (addresses d)"
  have "find (\<lambda>r. id_col r = ?k) (addresses d @ [Address_of ?k a]) = Some (Address_of ?k a)"
  proof (rule find_fresh_append)
    show "\<forall>r \<in> set (addresses d). \<not> id_col r = ?k"
      using next_rowid_gt [of _ "addresses d"] by fastforce
  qed simp
  then show ?thesis
    by (simp add: create_address_eq read_address_eq)
qed

subsection \<open>Delete, then get\<close>

text \<open>Whatever the identifier, \<open>delete_address\<close> leaves the table as it was.\<close>

lemma delete_address_commits_nothing: "addresses (fst (delete_address k d)) = addresses d"
  by (simp add: delete_address_eq split: option.splits)

text \<open>
  C2. The claim is that deleting a stored identifier removes the record, so that a later
  get fails with NotFound. On the database holding record 1, \<open>delete_address 1\<close> returns
  normally, the table still holds the record, and \<open>read_address 1\<close> afterwards returns
  it: the deletion marked in the session is never committed.
\<close>

theorem delete_then_get_still_found:
  "snd (delete_address 1 hq_db) = Inr ()
   \<and> addresses (fst (delete_address 1 hq_db)) = addresses hq_db
   \<and> snd (read_address 1 (fst (delete_address 1 hq_db))) = Inr (Address_of 1 hq)"
  by (simp add: hq_db_eq delete_address_eq read_address_eq)

subsection \<open>Update, then get\<close>

text \<open>
  C3. For every identifier in the table and every input, \<open>update_address\<close> succeeds with
  a record whose seven fields are the input and whose identifier is the one given; the
  identifiers in the table are as before; and \<open>read_address\<close> on that identifier
  afterwards returns exactly that record.
\<close>

theorem update_then_get:
  assumes "k \<in> id_col ` set (addresses d)"
  shows "\<exists>d' row. update_address k a d = (d', Inr row) \<and> fields_of row = a \<and> id_col row = k
     \<and> map id_col (addresses d') = map id_col (addresses d)
     \<and> snd (read_address k d') = Inr row"
proof -
  from assms obtain r0 where f: "find (\<lambda>r. id_col r = k) (addresses d) = Some r0"
    using find_None_absent [of k "addresses d"] by fastforce
  have g: "find (\<lambda>r. id_col r = k)
          (map (\<lambda>r. if id_col r = k then Address_of k a else r) (addresses d))
        = Some (Address_of k a)"
    using f by (rule find_replaced) simp
  have h: "map id_col (map (\<lambda>r. if id_col r = k then Address_of k a else r) (addresses d))
        = map id_col (addresses d)"
    by (induction "addresses d") auto
  show ?thesis
    using g h by (simp add: update_address_found [OF f] read_address_eq)
qed

theorem update_then_get_witness:
  "1 \<in> id_col ` set (addresses hq_db)
   \<and> (\<exists>d' row. update_address 1 depot hq_db = (d', Inr row) \<and> fields_of row = depot
        \<and> id_col row = 1 \<and> map id_col (addresses d') = map id_col (addresses hq_db)
        \<and> snd (read_address 1 d') = Inr row)"
proof -
  have h: "1 \<in> id_col ` set (addresses hq_db)"
    by (simp add: hq_db_eq)
  show ?thesis
    using h update_then_get [OF h, of depot] by simp
qed

subsection \<open>Sessions\<close>

text \<open>
  Every handler creates one session. All of them close it before they return or raise,
  except \<open>delete_address\<close> when it has found the record.
\<close>

lemma other_paths_close_session:
  "sessions_opened (fst (create_address a d)) = sessions_opened d + 1
   \<and> sessions_closed (fst (create_address a d)) = sessions_closed d + 1
   \<and> sessions_opened (fst (read_addresses skip limit d)) = sessions_opened d + 1
   \<and> sessions_closed (fst (read_addresses skip limit d)) = sessions_closed d + 1
   \<and> sessions_opened (fst (read_address k d)) = sessions_opened d + 1
   \<and> sessions_closed (fst (read_address k d)) = sessions_closed d + 1
   \<and> sessions_opened (fst (update_address k a d)) = sessions_opened d + 1
   \<and> sessions_closed (fst (update_address k a d)) = sessions_closed d + 1
   \<and> sessions_opened (fst (delete_address k d)) = sessions_opened d + 1"
proof (cases "find (\<lambda>r. id_col r = k) (addresses d)")
  case None
  then show ?thesis
    by (simp add: create_address_eq read_addresses_eq read_address_eq
        update_address_absent delete_address_eq)
next
  case (Some r0)
  then show ?thesis
    by (simp add: create_address_eq read_addresses_eq read_address_eq
        update_address_found delete_address_eq)
qed

text \<open>
  C5. The claim is that every operation closes the session it created on every exit
  path. On the database holding record 1, \<open>delete_address 1\<close> returns normally having
  created a session and closed none.
\<close>

theorem delete_leaves_session_open:
  "snd (delete_address 1 hq_db) = Inr ()
   \<and> sessions_opened (fst (delete_address 1 hq_db)) = sessions_opened hq_db + 1
   \<and> sessions_closed (fst (delete_address 1 hq_db)) = sessions_closed hq_db"
  by (simp add: hq_db_eq delete_address_eq)

subsection \<open>Identifiers that are not in the table\<close>

text \<open>
  C7. For every identifier that no row of the table has, \<open>read_address\<close>,
  \<open>update_address\<close> and \<open>delete_address\<close> each fail with NotFound, which is not the
  validation error, and the failing update and delete leave the table as it was.
\<close>

theorem absent_id_not_found:
  assumes "k \<notin> id_col ` set (addresses d)"
  shows "snd (read_address k d) = Inl NotFound
     \<and> snd (update_address k a d) = Inl NotFound
     \<and> addresses (fst (update_address k a d)) = addresses d
     \<and> snd (delete_address k d) = Inl NotFound
     \<and> addresses (fst (delete_address k d)) = addresses d
     \<and> NotFound \<noteq> ValidationError"
proof -
  have f: "find (\<lambda>r. id_col r = k) (addresses d) = None"
    using assms by (simp add: find_None_absent)
  show ?thesis
    by (simp add: read_address_eq update_address_absent [OF f] delete_address_eq f)
qed

theorem absent_id_not_found_witness:
  "7 \<notin> id_col ` set (addresses hq_db)
   \<and> snd (read_address 7 hq_db) = Inl NotFound
   \<and> snd (update_address 7 depot hq_db) = Inl NotFound
   \<and> addresses (fst (update_address 7 depot hq_db)) = addresses hq_db
   \<and> snd (delete_address 7 hq_db) = Inl NotFound
   \<and> addresses (fst (delete_address 7 hq_db)) = addresses hq_db
   \<and> NotFound \<noteq> ValidationError"
proof -
  have h: "7 \<notin> id_col ` set (addresses hq_db)"
    by (simp add: hq_db_eq)
  show ?thesis
    using h absent_id_not_found [OF h, of depot] by simp
qed

subsection \<open>Reads\<close>

text \<open>
  C10. \<open>read_address\<close> and \<open>read_addresses\<close> (also with its defaults) leave the table
  exactly as it was, for every database and all arguments.
\<close>

theorem reads_leave_table:
  "addresses (fst (read_address k d)) = addresses d
   \<and> addresses (fst (read_addresses skip limit d)) = addresses d
   \<and> addresses (fst (list_addresses oskip olimit d)) = addresses d"
  by (simp add: read_address_eq read_addresses_eq list_addresses_def)

subsection \<open>Paging\<close>

text \<open>The records created one after the other in an empty table are numbered from 1.\<close>

lemma next_rowid_Max: "rows \<noteq> [] \<Longrightarrow> next_rowid rows = Max (set (map id_col rows)) + 1"
  by (cases rows) (simp_all add: next_rowid_def Max.set_eq_fold [symmetric])

lemma map_id_col_zip:
  "length ks = length as \<Longrightarrow> map id_col (map2 Address_of ks as) = ks"
  by (induction ks as rule: list_induct2) simp_all

lemma create_many_snoc:
  "create_many (as @ [a]) d = fst (create_address a (create_many as d))"
  by (simp add: create_many_def)

lemma next_rowid_numbered:
  assumes "map id_col rows = [1..int n]"
  shows "next_rowid rows = int n + 1"
proof (cases n)
  case 0
  then show ?thesis
    using assms by (simp add: next_rowid_def)
next
  case (Suc m)
  then have ne: "rows \<noteq> []"
    using assms by (auto simp: upto.simps)
  have "Max (set [1..int n]) = int n"
    using Suc by (intro Max_eqI) auto
  then show ?thesis
    using assms by (simp add: next_rowid_Max [OF ne])
qed

lemma addresses_create_many:
  "addresses (create_many as empty_db) = map2 Address_of [1..int (length as)] as"
proof (induction as rule: rev_induct)
  case Nil
  show ?case by (simp add: create_many_def empty_db_def)
next
  case (snoc a as)
  let ?n = "length as"
  let ?rows = "addresses (create_many as empty_db)"
  have ids: "map id_col ?rows = [1..int ?n]"
    by (simp only: snoc.IH) (rule map_id_col_zip, simp)
  have k: "next_rowid ?rows = int ?n + 1"
    using ids by (rule next_rowid_numbered)
  have up: "[1..int (length (as @ [a]))] = [1..int ?n] @ [int ?n + 1]"
    using upto_rec2 [of 1 "int ?n + 1"] by (simp add: add.commute)
  have "addresses (create_many (as @ [a]) empty_db) = ?rows @ [Address_of (next_rowid ?rows) a]"
    by (simp add: create_many_snoc create_address_eq)
  also have "\<dots> = ?rows @ [Address_of (int ?n + 1) a]"
    by (simp only: k)
  also have "\<dots> = map2 Address_of [1..int ?n] as @ [Address_of (int ?n + 1) a]"
    by (simp only: snoc.IH)
  also have "\<dots> = map2 Address_of ([1..int ?n] @ [int ?n + 1]) (as @ [a])"
    by simp
  also have "\<dots> = map2 Address_of [1..int (length (as @ [a]))] (as @ [a])"
    by (simp only: up)
  finally show ?case .
qed

text \<open>
  C4. For a skip and a limit that are not negative, \<open>read_addresses\<close> returns the rows of
  the table in the table's order, without the first \<open>skip\<close> of them and at most \<open>limit\<close>
  of them. After fifteen records have been created in an empty table, the table holds
  them in the order of their creation with the identifiers 1 to 15; skip 0 and limit 10
  give exactly its first ten rows, and skip 10 and limit 10 exactly the five others.
\<close>

theorem list_pages:
  "(0 \<le> skip \<and> 0 \<le> limit \<longrightarrow>
      snd (read_addresses skip limit d) = take (nat limit) (drop (nat skip) (addresses d)))
   \<and> (length as = 15 \<longrightarrow>
      addresses (create_many as empty_db) = map2 Address_of [1..15] as
      \<and> snd (read_addresses 0 10 (create_many as empty_db))
          = take 10 (addresses (create_many as empty_db))
      \<and> snd (read_addresses 10 10 (create_many as empty_db))
          = drop 10 (addresses (create_many as empty_db))
      \<and> length (snd (read_addresses 0 10 (create_many as empty_db))) = 10
      \<and> length (snd (read_addresses 10 10 (create_many as empty_db))) = 5)"
proof (intro conjI impI)
  assume "0 \<le> skip \<and> 0 \<le> limit"
  then show "snd (read_addresses skip limit d) = take (nat limit) (drop (nat skip) (addresses d))"
    by (simp add: read_addresses_eq)
next
  assume n: "length as = 15"
  let ?rows = "addresses (create_many as empty_db)"
  show rows: "?rows = map2 Address_of [1..15] as"
    using addresses_create_many [of as] n by simp
  have len: "length ?rows = 15"
    by (simp add: addresses_create_many n)
  show "snd (read_addresses 0 10 (create_many as empty_db)) = take 10 ?rows"
    by (simp add: read_addresses_eq)
  show "snd (read_addresses 10 10 (create_many as empty_db)) = drop 10 ?rows"
    using len by (simp add: read_addresses_eq)
  show "length (snd (read_addresses 0 10 (create_many as empty_db))) = 10"
    using len by (simp add: read_addresses_eq)
  show "length (snd (read_addresses 10 10 (create_many as empty_db))) = 5"
    using len by (simp add: read_addresses_eq)
qed

theorem list_pages_witness:
  "(0 \<le> (2::int) \<and> 0 \<le> (1::int))
   \<and> snd (read_addresses 2 1 hq_db) = take (nat 1) (drop (nat 2) (addresses hq_db))
   \<and> length fifteen = 15
   \<and> addresses (create_many fifteen empty_db) = map2 Address_of [1..15] fifteen
   \<and> snd (read_addresses 0 10 (create_many fifteen empty_db))
          = take 10 (addresses (create_many fifteen empty_db))
   \<and> snd (read_addresses 10 10 (create_many fifteen empty_db))
          = drop 10 (addresses (create_many fifteen empty_db))
   \<and> length (snd (read_addresses 0 10 (create_many fifteen empty_db))) = 10
   \<and> length (snd (read_addresses 10 10 (create_many fifteen empty_db))) = 5"
proof -
  have h: "length fifteen = 15"
    by (simp add: fifteen_def)
  have g: "0 \<le> (2::int) \<and> 0 \<le> (1::int)"
    by simp
  show ?thesis
    using h g list_pages [of 2 1 hq_db fifteen] by simp
qed

text \<open>
  C6, as claimed: a negative limit gives what limit 10 gives. With fifteen records in the
  table, limit \<open>- 1\<close> gives all fifteen and limit 10 gives ten.
\<close>

theorem negative_limit_counterexample:
  "snd (list_addresses None (Some (- 1)) (create_many fifteen empty_db))
     \<noteq> snd (list_addresses None (Some 10) (create_many fifteen empty_db))"
proof
  assume "snd (list_addresses None (Some (- 1)) (create_many fifteen empty_db))
     = snd (list_addresses None (Some 10) (create_many fifteen empty_db))"
  then have "length (snd (list_addresses None (Some (- 1)) (create_many fifteen empty_db)))
     = length (snd (list_addresses None (Some 10) (create_many fifteen empty_db)))"
    by simp
  then show False
    by (simp add: list_addresses_def read_addresses_eq addresses_create_many fifteen_def)
qed

text \<open>
  C6, amended. An absent skip is 0 and an absent limit is 10. A negative skip gives what
  skip 0 gives. A negative limit is no bound: every row after the skipped ones is
  returned. A limit that is not negative bounds the number of rows returned, and a skip
  of at least the number of rows gives the empty list.
\<close>

theorem list_defaults_and_negatives:
  "list_addresses None None d = read_addresses 0 10 d
   \<and> list_addresses None (Some limit) d = read_addresses 0 limit d
   \<and> list_addresses (Some skip) None d = read_addresses skip 10 d
   \<and> (skip < 0 \<longrightarrow> snd (read_addresses skip limit d) = snd (read_addresses 0 limit d))
   \<and> (neg < 0 \<longrightarrow> snd (read_addresses skip neg d) = drop (nat skip) (addresses d))
   \<and> (0 \<le> m \<longrightarrow> length (snd (read_addresses skip m d)) \<le> nat m)
   \<and> (int (length (addresses d)) \<le> far \<longrightarrow> snd (read_addresses far limit d) = [])"
  by (simp add: list_addresses_def read_addresses_eq)

theorem list_defaults_and_negatives_witness:
  "(- 3 < (0::int) \<and> - 1 < (0::int) \<and> (0::int) \<le> 4 \<and> int (length (addresses hq_db)) \<le> 20)
   \<and> list_addresses None None hq_db = read_addresses 0 10 hq_db
   \<and> list_addresses None (Some 4) hq_db = read_addresses 0 4 hq_db
   \<and> list_addresses (Some (- 3)) None hq_db = read_addresses (- 3) 10 hq_db
   \<and> snd (read_addresses (- 3) 4 hq_db) = snd (read_addresses 0 4 hq_db)
   \<and> snd (read_addresses (- 3) (- 1) hq_db) = drop (nat (- 3)) (addresses hq_db)
   \<and> length (snd (read_addresses (- 3) 4 hq_db)) \<le> nat 4
   \<and> snd (read_addresses 20 4 hq_db) = []"
proof -
  have h: "- 3 < (0::int) \<and> - 1 < (0::int) \<and> (0::int) \<le> 4 \<and> int (length (addresses hq_db)) \<le> 20"
    by (simp add: hq_db_eq)
  show ?thesis
    using h list_defaults_and_negatives [of hq_db 4 "- 3" "- 1" 4 20] by auto
qed

subsection \<open>Bodies that do not validate\<close>

lemma required_None:
  "(required conv body key = None) = (body key = None \<or> (\<exists>v. body key = Some v \<and> conv v = None))"
  by (simp add: required_def split: option.splits)

text \<open>
  C8. When a required key is missing from the body, or its value is not accepted by the
  conversion of its type, the route fails with the validation error, which is not
  NotFound, and the database it returns is the one it was given: no session was created
  and the table is untouched.
\<close>

theorem invalid_body_rejected:
  assumes "(\<exists>key \<in> set float_keys. body key = None \<or> (\<exists>v. body key = Some v \<and> as_float v = None))
         \<or> (\<exists>key \<in> set str_keys. body key = None \<or> (\<exists>v. body key = Some v \<and> as_str v = None))"
  shows "post_addresses as_float as_str body d = (d, Inl ValidationError)
         \<and> ValidationError \<noteq> NotFound"
proof -
  have "(\<exists>key \<in> set float_keys. required as_float body key = None)
         \<or> (\<exists>key \<in> set str_keys. required as_str body key = None)"
    using assms by (simp only: required_None)
  then have "validate_AddressCreate as_float as_str body = Inl ValidationError"
    by (auto simp: validate_AddressCreate_def float_keys_def str_keys_def split: option.splits)
  then show ?thesis
    by (simp add: post_addresses_def)
qed

theorem invalid_body_rejected_witness:
  "((\<exists>key \<in> set float_keys. no_zip_body key = None
        \<or> (\<exists>v. no_zip_body key = Some v \<and> number_only v = None))
     \<or> (\<exists>key \<in> set str_keys. no_zip_body key = None
        \<or> (\<exists>v. no_zip_body key = Some v \<and> string_only v = None)))
   \<and> post_addresses number_only string_only no_zip_body hq_db = (hq_db, Inl ValidationError)
   \<and> ValidationError \<noteq> NotFound"
proof -
  have "no_zip_body ''zip_code'' = None"
    by (simp add: no_zip_body_def)
  then have h: "(\<exists>key \<in> set float_keys. no_zip_body key = None
        \<or> (\<exists>v. no_zip_body key = Some v \<and> number_only v = None))
     \<or> (\<exists>key \<in> set str_keys. no_zip_body key = None
        \<or> (\<exists>v. no_zip_body key = Some v \<and> string_only v = None))"
    by (simp add: str_keys_def)
  show ?thesis
    using h invalid_body_rejected [OF h, of hq_db] by simp
qed

text \<open>A body with all seven keys, each of the right type, reaches \<open>create_address\<close>.\<close>

lemma valid_body_accepted:
  assumes "\<forall>key \<in> set float_keys. \<exists>v x. body key = Some v \<and> as_float v = Some x"
    and "\<forall>key \<in> set str_keys. \<exists>v x. body key = Some v \<and> as_str v = Some x"
  shows "\<exists>a. validate_AddressCreate as_float as_str body = Inr a
           \<and> post_addresses as_float as_str body d = create_address a d"
  using assms
  by (auto simp: validate_AddressCreate_def post_addresses_def required_def
      float_keys_def str_keys_def)

subsection \<open>Identifiers\<close>














end
